theory Spec2Isabelle
  imports Complex_Main
begin

section \<open>The CVD risk calculator: a shallow embedding of cvd_risk_app.py\<close>

text \<open>
  The calculation functions of \<^verbatim>\<open>cvd_risk_app.py\<close> are translated one by one.
  Python floats are idealised as the reals: \<open>+\<close>, \<open>-\<close>, \<open>*\<close>, \<open>/\<close> are exact,
  \<^verbatim>\<open>math.log\<close> is \<open>ln\<close>, \<^verbatim>\<open>math.exp\<close> is \<open>exp\<close> and \<^verbatim>\<open>**\<close> on a positive
  base is \<open>powr\<close>. Python integers that reach the arithmetic (age, SBP, eGFR, the count
  of vascular territories, the catalog's reductions) are converted to float by the first
  operation with a float, so they are reals here as well. What a float operation raises
  is kept as a branch of the model.
\<close>

subsection \<open>Constants\<close>

text \<open>
  \<^verbatim>\<open>LDL_THERAPIES\<close> is a dict of dicts; both levels are maps, read with the
  two-argument \<^verbatim>\<open>dict.get(key, default)\<close>, which never raises.
\<close>

definition LDL_THERAPIES :: "string \<rightharpoonup> (string \<rightharpoonup> real)" where
  "LDL_THERAPIES =
     [''Atorvastatin 20 mg'' \<mapsto> [''reduction'' \<mapsto> 40],
      ''Atorvastatin 80 mg'' \<mapsto> [''reduction'' \<mapsto> 50],
      ''Rosuvastatin 10 mg'' \<mapsto> [''reduction'' \<mapsto> 45],
      ''Rosuvastatin 20 mg'' \<mapsto> [''reduction'' \<mapsto> 55]]"

definition dict_get :: "('k \<rightharpoonup> 'v) \<Rightarrow> 'k \<Rightarrow> 'v \<Rightarrow> 'v" where
  "dict_get d k dflt = (case d k of Some v \<Rightarrow> v | None \<Rightarrow> dflt)"

subsection \<open>Float operations that can raise\<close>

datatype py_error = ValueError | OverflowError

text \<open>The largest finite double, \<open>(2 - 2\<^sup>-\<^sup>5\<^sup>2) * 2\<^sup>1\<^sup>0\<^sup>2\<^sup>3\<close>.\<close>

definition DBL_MAX :: real where
  "DBL_MAX = (2 - 1 / 2 ^ 52) * 2 ^ 1023"

text \<open>\<^verbatim>\<open>math.log(x)\<close> raises ValueError (math domain error) unless \<open>x > 0\<close>.\<close>

definition math_log :: "real \<Rightarrow> py_error + real" where
  "math_log x = (if x \<le> 0 then Inl ValueError else Inr (ln x))"

text \<open>\<^verbatim>\<open>math.exp(x)\<close> raises OverflowError (math range error) when the result is
  beyond the largest double.\<close>

definition math_exp :: "real \<Rightarrow> py_error + real" where
  "math_exp x = (if DBL_MAX < exp x then Inl OverflowError else Inr (exp x))"

text \<open>\<^verbatim>\<open>b ** y\<close> on floats with a positive base \<open>b\<close> (the only call has the literal
  \<^verbatim>\<open>0.900\<close>): OverflowError when the result is beyond the largest double; an
  underflow is silent.\<close>

definition float_pow :: "real \<Rightarrow> real \<Rightarrow> py_error + real" where
  "float_pow b y = (if DBL_MAX < b powr y then Inl OverflowError else Inr (b powr y))"

text \<open>
  \<^verbatim>\<open>round(x, 1)\<close>: the multiple of one tenth nearest to \<open>x\<close>, a tie going to the
  even one.
\<close>

definition round_half_even :: "real \<Rightarrow> int" where
  "round_half_even x =
     (let f = \<lfloor>x\<rfloor>; d = x - of_int f
      in if d < 1 / 2 then f
         else if 1 / 2 < d then f + 1
         else if even f then f else f + 1)"

definition round1 :: "real \<Rightarrow> real" where
  "round1 x = of_int (round_half_even (x * 10)) / 10"

subsection \<open>Calculation functions\<close>

text \<open>
  \<^verbatim>\<open>calculate_smart_risk\<close>: the body runs inside \<^verbatim>\<open>try\<close>; the handler reports
  the exception and returns \<^verbatim>\<open>None\<close>, so every raise of the body is the result
  \<open>None\<close> here.
\<close>

definition calculate_smart_risk ::
  "real \<Rightarrow> string \<Rightarrow> real \<Rightarrow> real \<Rightarrow> real \<Rightarrow> bool \<Rightarrow> bool \<Rightarrow> real \<Rightarrow> real \<Rightarrow> real \<Rightarrow> real option"
where
  "calculate_smart_risk age sex sbp total_chol hdl smoker diabetes egfr crp vasc_count =
     (let sex_val = (if sex = ''Male'' then 1 else 0 :: real);
          smoking_val = (if smoker then 1 else 0 :: real);
          diabetes_val = (if diabetes then 1 else 0 :: real)
      in case math_log (max crp 0.1 + 1) of
           Inl e \<Rightarrow> None
         | Inr crp_log \<Rightarrow>
             (let lp = (0.064 * age + 0.34 * sex_val + 0.02 * sbp + 0.25 * total_chol -
                        0.25 * hdl + 0.44 * smoking_val + 0.51 * diabetes_val -
                        0.2 * (egfr / 10) + 0.25 * crp_log + 0.4 * vasc_count)
              in case math_exp (lp - 5.8) of
                   Inl e \<Rightarrow> None
                 | Inr ex \<Rightarrow>
                     (case float_pow 0.900 ex of
                        Inl e \<Rightarrow> None
                      | Inr p \<Rightarrow>
                          (let risk10 = 1 - p
                           in Some (max 1.0 (min 99.0 (round1 (risk10 * 100))))))))"

text \<open>
  \<^verbatim>\<open>calculate_ldl_effect\<close>: subtraction, multiplication, \<^verbatim>\<open>min\<close> and the division
  by the constant 100 raise nothing on floats, so the handler (which returns
  \<open>baseline_risk\<close>) is never entered and the function is total. The three \<^verbatim>\<open>if\<close>
  statements update \<open>rrr\<close> in sequence.
\<close>

definition calculate_ldl_effect :: "real \<Rightarrow> real \<Rightarrow> real \<Rightarrow> bool \<Rightarrow> bool \<Rightarrow> bool \<Rightarrow> real" where
  "calculate_ldl_effect baseline_risk baseline_ldl final_ldl bp_controlled smoking_cessation lifestyle =
     (let ldl_reduction = baseline_ldl - final_ldl;
          rrr = min (22 * ldl_reduction) 60;
          rrr = (if bp_controlled then rrr + 10 else rrr);
          rrr = (if smoking_cessation then rrr + 10 else rrr);
          rrr = (if lifestyle then rrr + 5 else rrr);
          rrr = min rrr 80
      in baseline_risk * (1 - rrr / 100))"

text \<open>
  \<^verbatim>\<open>calculate_ldl_reduction\<close>: the add-ons are a list, tested with \<^verbatim>\<open>in\<close>.
\<close>

definition calculate_ldl_reduction :: "real \<Rightarrow> string \<Rightarrow> string \<Rightarrow> string list \<Rightarrow> real \<times> real" where
  "calculate_ldl_reduction current_ldl pre_statin discharge_statin discharge_add_ons =
     (let statin_reduction = dict_get (dict_get LDL_THERAPIES discharge_statin Map.empty) ''reduction'' 0;
          statin_reduction = (if pre_statin \<noteq> ''None'' then statin_reduction * 0.5 else statin_reduction);
          total_reduction = statin_reduction;
          total_reduction = (if ''Ezetimibe'' \<in> set discharge_add_ons
                             then total_reduction + 20 else total_reduction);
          total_reduction = (if ''PCSK9 inhibitor'' \<in> set discharge_add_ons
                             then total_reduction + 60 else total_reduction);
          total_reduction = (if ''Inclisiran'' \<in> set discharge_add_ons
                             then total_reduction + 50 else total_reduction);
          projected_ldl = current_ldl * (1 - total_reduction / 100)
      in (projected_ldl, total_reduction))"

text \<open>
  \<^verbatim>\<open>generate_recommendations\<close> returns one of three texts. Each starts with four
  characters beyond ASCII (U+00F0, U+0178, then U+201D U+00B4, U+0178 U+00A0 or
  U+0178 U+00A2), written here as the bytes of their UTF-8 encoding in the source file.
\<close>

definition very_high_text :: string where
  "very_high_text =
     [CHR 0xC3, CHR 0xB0, CHR 0xC5, CHR 0xB8, CHR 0xE2, CHR 0x80, CHR 0x9D, CHR 0xC2, CHR 0xB4] @
     '' Very High Risk: High-intensity statin, PCSK9 inhibitor, SBP <130 mmHg, lifestyle adherence.''"

definition high_text :: string where
  "high_text =
     [CHR 0xC3, CHR 0xB0, CHR 0xC5, CHR 0xB8, CHR 0xC5, CHR 0xB8, CHR 0xC2, CHR 0xA0] @
     '' High Risk: Moderate-intensity statin, SBP <130 mmHg, encourage smoking cessation and healthy diet.''"

definition moderate_text :: string where
  "moderate_text =
     [CHR 0xC3, CHR 0xB0, CHR 0xC5, CHR 0xB8, CHR 0xC5, CHR 0xB8, CHR 0xC2, CHR 0xA2] @
     '' Moderate Risk: Lifestyle adherence, annual reassessment.''"

definition generate_recommendations :: "real \<Rightarrow> string" where
  "generate_recommendations final_risk =
     (if final_risk \<ge> 30 then very_high_text
      else if final_risk \<ge> 20 then high_text
      else moderate_text)"

subsection \<open>The input ranges of the form\<close>

text \<open>
  The bounds of the sidebar widgets (\<^verbatim>\<open>number_input\<close>, \<^verbatim>\<open>slider\<close>): age 30-100,
  SBP 90-220, total cholesterol 2.0-10.0, HDL 0.5-3.0, eGFR 15-120, and a count of
  0 to 3 vascular territories (the sum of three checkboxes). hs-CRP is entered in
  0.1-20.0, and \<open>crp_used\<close> is 0.0 when it is excluded, so 0.0-20.0 reaches the function.
\<close>

definition in_range :: "real \<Rightarrow> real \<Rightarrow> real \<Rightarrow> real \<Rightarrow> real \<Rightarrow> real \<Rightarrow> real \<Rightarrow> bool" where
  "in_range age sbp total_chol hdl egfr crp vasc_count \<longleftrightarrow>
     30 \<le> age \<and> age \<le> 100 \<and> 90 \<le> sbp \<and> sbp \<le> 220 \<and>
     2.0 \<le> total_chol \<and> total_chol \<le> 10.0 \<and> 0.5 \<le> hdl \<and> hdl \<le> 3.0 \<and>
     15 \<le> egfr \<and> egfr \<le> 120 \<and> 0.0 \<le> crp \<and> crp \<le> 20.0 \<and>
     0 \<le> vasc_count \<and> vasc_count \<le> 3"

subsection \<open>The linear predictor\<close>

text \<open>
  The value of the local variable \<open>lp\<close> of \<^verbatim>\<open>calculate_smart_risk\<close>, given a name of
  its own so that the lemmas below can speak about it; \<open>calculate_smart_risk_unfold\<close>
  relates it to the function.
\<close>

definition smart_lp ::
  "real \<Rightarrow> string \<Rightarrow> real \<Rightarrow> real \<Rightarrow> real \<Rightarrow> bool \<Rightarrow> bool \<Rightarrow> real \<Rightarrow> real \<Rightarrow> real \<Rightarrow> real"
where
  "smart_lp age sex sbp total_chol hdl smoker diabetes egfr crp vasc_count =
     0.064 * age + 0.34 * (if sex = ''Male'' then 1 else 0) + 0.02 * sbp + 0.25 * total_chol -
     0.25 * hdl + 0.44 * (if smoker then 1 else 0) + 0.51 * (if diabetes then 1 else 0) -
     0.2 * (egfr / 10) + 0.25 * ln (max crp 0.1 + 1) + 0.4 * vasc_count"

subsection \<open>The formulas in the words of the specification\<close>

text \<open>
  These definitions follow the specification, not the source: the catalog as a lookup
  with 0 for every other name, the flat increments of the add-ons, the total reduction
  and the relative risk reduction as closed formulas. The theorems below compare them
  with the functions translated from the source.
\<close>

definition spec_catalog_reduction :: "string \<Rightarrow> real" where
  "spec_catalog_reduction name =
     (if name = ''Atorvastatin 20 mg'' then 40
      else if name = ''Atorvastatin 80 mg'' then 50
      else if name = ''Rosuvastatin 10 mg'' then 45
      else if name = ''Rosuvastatin 20 mg'' then 55
      else 0)"

definition spec_add_on_increment :: "string list \<Rightarrow> real" where
  "spec_add_on_increment add_ons =
     (if ''Ezetimibe'' \<in> set add_ons then 20 else 0) +
     (if ''PCSK9 inhibitor'' \<in> set add_ons then 60 else 0) +
     (if ''Inclisiran'' \<in> set add_ons then 50 else 0)"

definition spec_total_reduction :: "string \<Rightarrow> string \<Rightarrow> string list \<Rightarrow> real" where
  "spec_total_reduction pre_statin new_statin add_ons =
     (if pre_statin \<noteq> ''None'' then spec_catalog_reduction new_statin / 2
      else spec_catalog_reduction new_statin) +
     spec_add_on_increment add_ons"

definition spec_rrr :: "real \<Rightarrow> real \<Rightarrow> bool \<Rightarrow> bool \<Rightarrow> bool \<Rightarrow> real" where
  "spec_rrr baseline_ldl final_ldl bp_controlled smoking_cessation lifestyle =
     min (min (22 * (baseline_ldl - final_ldl)) 60
          + (if bp_controlled then 10 else 0)
          + (if smoking_cessation then 10 else 0)
          + (if lifestyle then 5 else 0)) 80"

section \<open>Properties\<close>

subsection \<open>The baseline risk model\<close>

lemma DBL_MAX_ge: "3 ^ 15 \<le> DBL_MAX"
  by (simp add: DBL_MAX_def)

lemma float_pow_09: "float_pow (9 / 10) (exp x) = Inr ((9 / 10) powr exp x)"
proof -
  have "(9 / 10 :: real) powr exp x \<le> 1"
    by (rule powr_le1) simp_all
  moreover have "1 \<le> DBL_MAX" using DBL_MAX_ge by simp
  ultimately show ?thesis by (simp add: float_pow_def)
qed

lemma calculate_smart_risk_unfold:
  "calculate_smart_risk age sex sbp total_chol hdl smoker diabetes egfr crp vasc_count =
     (if DBL_MAX < exp (smart_lp age sex sbp total_chol hdl smoker diabetes egfr crp vasc_count - 5.8)
      then None
      else Some (max 1 (min 99 (round1 ((1 - 0.9 powr
             exp (smart_lp age sex sbp total_chol hdl smoker diabetes egfr crp vasc_count - 5.8)) * 100)))))"
proof -
  have pos: "\<not> max crp 0.1 + 1 \<le> 0"
    by (simp add: max_def)
  show ?thesis
    unfolding calculate_smart_risk_def Let_def math_log_def math_exp_def smart_lp_def
    using pos by (simp add: float_pow_09)
qed

lemma lp_arith_upper:
  fixes a s b t h k d e L v :: real
  assumes "a \<le> 100" "s \<le> 1" "b \<le> 220" "t \<le> 10" "1 / 2 \<le> h" "k \<le> 1" "d \<le> 1"
    "15 \<le> e" "L \<le> 20" "v \<le> 3"
  shows "0.064 * a + 0.34 * s + 0.02 * b + 0.25 * t - 0.25 * h + 0.44 * k + 0.51 * d -
         0.2 * (e / 10) + 0.25 * L + 0.4 * v - 5.8 \<le> 15"
  using assms by simp

lemma smart_lp_upper:
  assumes "in_range age sbp total_chol hdl egfr crp vasc_count"
  shows "smart_lp age sex sbp total_chol hdl smoker diabetes egfr crp vasc_count - 5.8 \<le> 15"
proof -
  have "0 \<le> max crp 0.1" by simp
  then have "ln (1 + max crp 0.1) \<le> max crp 0.1"
    by (rule ln_add_one_self_le_self)
  moreover have "max crp 0.1 \<le> 20" using assms by (simp add: in_range_def)
  ultimately have l: "ln (max crp 0.1 + 1) \<le> 20" by (simp add: add.commute)
  have s: "(if sex = ''Male'' then 1 else 0 :: real) \<le> 1"
    and k: "(if smoker then 1 else 0 :: real) \<le> 1"
    and d: "(if diabetes then 1 else 0 :: real) \<le> 1"
    by simp_all
  show ?thesis
    unfolding smart_lp_def
    by (rule lp_arith_upper) (use assms l s k d in \<open>simp_all add: in_range_def\<close>)
qed

lemma exp_15_le: "exp (15::real) \<le> DBL_MAX"
proof -
  have "exp (15::real) = exp (of_nat 15 * 1)" by simp
  also have "\<dots> = exp 1 ^ 15" by (rule exp_of_nat_mult)
  also have "\<dots> \<le> 3 ^ 15"
    by (rule power_mono) (use exp_le in simp_all)
  finally show ?thesis using DBL_MAX_ge by linarith
qed

lemma no_overflow_in_range:
  assumes "in_range age sbp total_chol hdl egfr crp vasc_count"
  shows "\<not> DBL_MAX < exp (smart_lp age sex sbp total_chol hdl smoker diabetes egfr crp vasc_count - 5.8)"
proof -
  have "exp (smart_lp age sex sbp total_chol hdl smoker diabetes egfr crp vasc_count - 5.8) \<le> exp 15"
    using smart_lp_upper [OF assms] by simp
  then show ?thesis using exp_15_le by linarith
qed

text \<open>
  Claim C1. For every input within the ranges of the form (any sex, any flags),
  \<open>calculate_smart_risk\<close> returns a number, no exception is raised, and the number lies
  in the closed interval from 1.0 to 99.0; it is neither 0 nor 100.
\<close>

theorem calculate_smart_risk_bounds:
  assumes "in_range age sbp total_chol hdl egfr crp vasc_count"
  shows "\<exists>r. calculate_smart_risk age sex sbp total_chol hdl smoker diabetes egfr crp vasc_count = Some r
            \<and> 1.0 \<le> r \<and> r \<le> 99.0 \<and> r \<noteq> 0 \<and> r \<noteq> 100"
  using no_overflow_in_range [OF assms]
  by (simp add: calculate_smart_risk_unfold max_def min_def)

theorem calculate_smart_risk_bounds_witness:
  "in_range 65 140 5.0 1.0 80 2.0 0 \<and>
   (\<exists>r. calculate_smart_risk 65 ''Male'' 140 5.0 1.0 False False 80 2.0 0 = Some r
        \<and> 1.0 \<le> r \<and> r \<le> 99.0 \<and> r \<noteq> 0 \<and> r \<noteq> 100)"
proof -
  have h: "in_range 65 140 5.0 1.0 80 2.0 0"
    by (simp add: in_range_def)
  from calculate_smart_risk_bounds [OF h, of "''Male''" False False] h
  show ?thesis by blast
qed

lemma round_half_even_bounds: "\<lfloor>x\<rfloor> \<le> round_half_even x \<and> round_half_even x \<le> \<lfloor>x\<rfloor> + 1"
  by (simp add: round_half_even_def Let_def)

lemma round_half_even_mono:
  assumes "x \<le> y"
  shows "round_half_even x \<le> round_half_even y"
proof (cases "\<lfloor>x\<rfloor> = \<lfloor>y\<rfloor>")
  case True
  with assms show ?thesis
    by (auto simp: round_half_even_def Let_def)
next
  case False
  with assms have "\<lfloor>x\<rfloor> + 1 \<le> \<lfloor>y\<rfloor>"
    using floor_mono [OF assms] by linarith
  then show ?thesis
    using round_half_even_bounds [of x] round_half_even_bounds [of y] by linarith
qed

lemma round1_mono: "x \<le> y \<Longrightarrow> round1 x \<le> round1 y"
  unfolding round1_def
  by (simp add: round_half_even_mono divide_right_mono)

lemma lp_arith_mono:
  fixes a s b t h k d e L v :: real
  assumes "a \<le> a'" "b \<le> b'" "t \<le> t'" "h' \<le> h" "k \<le> k'" "d \<le> d'" "e' \<le> e" "v \<le> v'"
  shows "0.064 * a + 0.34 * s + 0.02 * b + 0.25 * t - 0.25 * h + 0.44 * k + 0.51 * d -
         0.2 * (e / 10) + 0.25 * L + 0.4 * v
       \<le> 0.064 * a' + 0.34 * s + 0.02 * b' + 0.25 * t' - 0.25 * h' + 0.44 * k' + 0.51 * d' -
         0.2 * (e' / 10) + 0.25 * L + 0.4 * v'"
  using assms by simp

lemma smart_lp_mono:
  assumes "age \<le> age'" "sbp \<le> sbp'" "total_chol \<le> total_chol'" "hdl' \<le> hdl"
    "smoker \<longrightarrow> smoker'" "diabetes \<longrightarrow> diabetes'" "egfr' \<le> egfr" "vasc_count \<le> vasc_count'"
  shows "smart_lp age sex sbp total_chol hdl smoker diabetes egfr crp vasc_count
       \<le> smart_lp age' sex sbp' total_chol' hdl' smoker' diabetes' egfr' crp vasc_count'"
  unfolding smart_lp_def
  by (rule lp_arith_mono) (use assms in auto)

lemma risk_value_mono:
  assumes "l \<le> l'"
  shows "max 1 (min 99 (round1 ((1 - (9 / 10) powr exp (l - 5.8)) * 100)))
       \<le> max 1 (min 99 (round1 ((1 - (9 / 10) powr exp (l' - 5.8)) * 100)))"
proof -
  have "exp (l - 5.8) \<le> exp (l' - 5.8)" using assms by simp
  then have "(9 / 10 :: real) powr exp (l' - 5.8) \<le> (9 / 10) powr exp (l - 5.8)"
    by (rule powr_mono') simp_all
  then have "(1 - (9 / 10) powr exp (l - 5.8)) * 100 \<le> (1 - (9 / 10) powr exp (l' - 5.8)) * 100"
    by simp
  then have "round1 ((1 - (9 / 10) powr exp (l - 5.8)) * 100)
           \<le> round1 ((1 - (9 / 10) powr exp (l' - 5.8)) * 100)"
    by (rule round1_mono)
  then show ?thesis by (simp add: max_def min_def)
qed

text \<open>
  Claim C5. Within the ranges of the form, \<open>calculate_smart_risk\<close> is non-decreasing in
  age, SBP, total cholesterol, the count of vascular territories and in turning on the
  smoker and the diabetes flag, and non-increasing in HDL and eGFR. The theorem moves
  all eight inputs at once, each in its direction; holding all but one fixed is the
  instance where the others are equal.
\<close>

theorem calculate_smart_risk_monotone:
  assumes r: "in_range age sbp total_chol hdl egfr crp vasc_count"
    and r': "in_range age' sbp' total_chol' hdl' egfr' crp vasc_count'"
    and le: "age \<le> age'" "sbp \<le> sbp'" "total_chol \<le> total_chol'" "vasc_count \<le> vasc_count'"
      "smoker \<longrightarrow> smoker'" "diabetes \<longrightarrow> diabetes'" "hdl' \<le> hdl" "egfr' \<le> egfr"
  shows "\<exists>x x'. calculate_smart_risk age sex sbp total_chol hdl smoker diabetes egfr crp vasc_count = Some x
          \<and> calculate_smart_risk age' sex sbp' total_chol' hdl' smoker' diabetes' egfr' crp vasc_count' = Some x'
          \<and> x \<le> x'"
proof -
  have "smart_lp age sex sbp total_chol hdl smoker diabetes egfr crp vasc_count
       \<le> smart_lp age' sex sbp' total_chol' hdl' smoker' diabetes' egfr' crp vasc_count'"
    using le by (intro smart_lp_mono)
  from risk_value_mono [OF this] no_overflow_in_range [OF r] no_overflow_in_range [OF r']
  show ?thesis
    by (simp add: calculate_smart_risk_unfold)
qed

theorem calculate_smart_risk_monotone_witness:
  "in_range 65 140 5.0 1.0 80 2.0 0 \<and> in_range 70 150 6.0 0.9 60 2.0 1 \<and>
   (\<exists>x x'. calculate_smart_risk 65 ''Male'' 140 5.0 1.0 False False 80 2.0 0 = Some x
          \<and> calculate_smart_risk 70 ''Male'' 150 6.0 0.9 True True 60 2.0 1 = Some x'
          \<and> x \<le> x')"
proof -
  have h: "in_range 65 140 5.0 1.0 80 2.0 0" and h': "in_range 70 150 6.0 0.9 60 2.0 1"
    by (simp_all add: in_range_def)
  have "\<exists>x x'. calculate_smart_risk 65 ''Male'' 140 5.0 1.0 False False 80 2.0 0 = Some x
          \<and> calculate_smart_risk 70 ''Male'' 150 6.0 0.9 True True 60 2.0 1 = Some x'
          \<and> x \<le> x'"
    by (rule calculate_smart_risk_monotone [OF h h']) simp_all
  with h h' show ?thesis by blast
qed

text \<open>
  Claim C8. CRP is floored at 0.1 before the logarithm: for every \<open>crp \<le> 0.1\<close>, 0.0
  among them, \<open>calculate_smart_risk\<close> returns what it returns for \<open>crp = 0.1\<close>, all other
  inputs fixed, and that result is the one computed from the linear predictor whose
  logarithm term is \<open>0.25 * ln 1.1\<close>; \<open>ln 1.1\<close> is positive, so the term is not 0.
\<close>

theorem crp_floor:
  assumes "crp \<le> 0.1"
  shows "calculate_smart_risk age sex sbp total_chol hdl smoker diabetes egfr crp vasc_count
       = calculate_smart_risk age sex sbp total_chol hdl smoker diabetes egfr 0.1 vasc_count
       \<and> calculate_smart_risk age sex sbp total_chol hdl smoker diabetes egfr crp vasc_count
       = (let lp = 0.064 * age + 0.34 * (if sex = ''Male'' then 1 else 0) + 0.02 * sbp
                   + 0.25 * total_chol - 0.25 * hdl + 0.44 * (if smoker then 1 else 0)
                   + 0.51 * (if diabetes then 1 else 0) - 0.2 * (egfr / 10)
                   + 0.25 * ln 1.1 + 0.4 * vasc_count
          in if DBL_MAX < exp (lp - 5.8) then None
             else Some (max 1.0 (min 99.0 (round1 ((1 - 0.900 powr exp (lp - 5.8)) * 100)))))
       \<and> (0::real) < ln 1.1"
proof (intro conjI)
  have m: "max crp 0.1 = 0.1" using assms by (simp add: max_def)
  have l: "smart_lp age sex sbp total_chol hdl smoker diabetes egfr crp vasc_count
         = 0.064 * age + 0.34 * (if sex = ''Male'' then 1 else 0) + 0.02 * sbp
           + 0.25 * total_chol - 0.25 * hdl + 0.44 * (if smoker then 1 else 0)
           + 0.51 * (if diabetes then 1 else 0) - 0.2 * (egfr / 10)
           + 0.25 * ln 1.1 + 0.4 * vasc_count"
    unfolding smart_lp_def m by simp
  show "calculate_smart_risk age sex sbp total_chol hdl smoker diabetes egfr crp vasc_count
       = calculate_smart_risk age sex sbp total_chol hdl smoker diabetes egfr 0.1 vasc_count"
    using m by (simp add: calculate_smart_risk_def)
  show "calculate_smart_risk age sex sbp total_chol hdl smoker diabetes egfr crp vasc_count
       = (let lp = 0.064 * age + 0.34 * (if sex = ''Male'' then 1 else 0) + 0.02 * sbp
                   + 0.25 * total_chol - 0.25 * hdl + 0.44 * (if smoker then 1 else 0)
                   + 0.51 * (if diabetes then 1 else 0) - 0.2 * (egfr / 10)
                   + 0.25 * ln 1.1 + 0.4 * vasc_count
          in if DBL_MAX < exp (lp - 5.8) then None
             else Some (max 1.0 (min 99.0 (round1 ((1 - 0.900 powr exp (lp - 5.8)) * 100)))))"
    unfolding calculate_smart_risk_unfold l Let_def by simp
  show "(0::real) < ln 1.1" by simp
qed

theorem crp_floor_witness:
  "(0.0::real) \<le> 0.1 \<and>
   calculate_smart_risk 65 ''Male'' 140 5.0 1.0 False False 80 0.0 0
     = calculate_smart_risk 65 ''Male'' 140 5.0 1.0 False False 80 0.1 0
   \<and> calculate_smart_risk 65 ''Male'' 140 5.0 1.0 False False 80 0.0 0
     = (let lp = 0.064 * 65 + 0.34 * (if ''Male'' = ''Male'' then 1 else 0) + 0.02 * 140
                 + 0.25 * 5.0 - 0.25 * 1.0 + 0.44 * (if False then 1 else 0)
                 + 0.51 * (if False then 1 else 0) - 0.2 * (80 / 10)
                 + 0.25 * ln 1.1 + 0.4 * 0
        in if DBL_MAX < exp (lp - 5.8) then None
           else Some (max 1.0 (min 99.0 (round1 ((1 - 0.900 powr exp (lp - 5.8)) * 100)))))"
proof -
  have h: "(0.0::real) \<le> 0.1" by simp
  from crp_floor [OF h, of 65 "''Male''" 140 "5.0" "1.0" False False 80 0] h
  show ?thesis by blast
qed

text \<open>
  Claim C10. \<open>calculate_smart_risk\<close> tests the sex only against the string \<open>Male\<close>:
  every other string gives the result of \<open>Female\<close>, all other inputs fixed.
\<close>

theorem sex_branch_only_male:
  assumes "sex \<noteq> ''Male''"
  shows "calculate_smart_risk age sex sbp total_chol hdl smoker diabetes egfr crp vasc_count
       = calculate_smart_risk age ''Female'' sbp total_chol hdl smoker diabetes egfr crp vasc_count"
  using assms by (simp add: calculate_smart_risk_def)

theorem sex_branch_only_male_witness:
  "''male'' \<noteq> ''Male'' \<and>
   calculate_smart_risk 65 ''male'' 140 5.0 1.0 False False 80 2.0 0
     = calculate_smart_risk 65 ''Female'' 140 5.0 1.0 False False 80 2.0 0"
proof -
  have h: "''male'' \<noteq> ''Male''" by simp
  from sex_branch_only_male [OF h, of 65 140 "5.0" "1.0" False False 80 "2.0" 0] h
  show ?thesis by blast
qed

subsection \<open>The LDL projection\<close>

lemma catalog_lookup:
  "dict_get (dict_get LDL_THERAPIES name Map.empty) ''reduction'' 0 = spec_catalog_reduction name"
  by (simp add: LDL_THERAPIES_def dict_get_def spec_catalog_reduction_def)

lemma catalog_lookup_unknown:
  "name \<notin> dom LDL_THERAPIES \<Longrightarrow> dict_get (dict_get LDL_THERAPIES name Map.empty) ''reduction'' 0 = 0"
  by (auto simp: dict_get_def dom_def)

lemma calculate_ldl_reduction_unfold:
  "calculate_ldl_reduction current_ldl pre_statin discharge_statin discharge_add_ons =
     (current_ldl * (1 - spec_total_reduction pre_statin discharge_statin discharge_add_ons / 100),
      spec_total_reduction pre_statin discharge_statin discharge_add_ons)"
  by (simp add: calculate_ldl_reduction_def Let_def catalog_lookup spec_total_reduction_def
      spec_add_on_increment_def)

lemma spec_catalog_reduction_nonneg: "0 \<le> spec_catalog_reduction name"
  by (simp add: spec_catalog_reduction_def)

lemma spec_add_on_increment_nonneg: "0 \<le> spec_add_on_increment add_ons"
  by (simp add: spec_add_on_increment_def)

lemma spec_total_reduction_nonneg: "0 \<le> spec_total_reduction p d a"
  using spec_catalog_reduction_nonneg [of d] spec_add_on_increment_nonneg [of a]
  by (simp add: spec_total_reduction_def)

text \<open>
  Claim C2. \<open>calculate_ldl_reduction\<close> takes as total reduction the catalog reduction of
  the new statin (0 for \<open>None\<close> and every unknown name), halved when the pre-existing
  statin is not \<open>None\<close>, plus 20 for Ezetimibe, 60 for PCSK9 inhibitor and 50 for
  Inclisiran among the add-ons, without a cap, and projects the LDL as
  \<open>current_ldl * (1 - total / 100)\<close>. The two examples of the specification give
  (2.5, 50) and (2.625, 47.5).
\<close>

theorem calculate_ldl_reduction_formula:
  "calculate_ldl_reduction current_ldl pre_statin discharge_statin discharge_add_ons =
     (current_ldl * (1 - spec_total_reduction pre_statin discharge_statin discharge_add_ons / 100),
      spec_total_reduction pre_statin discharge_statin discharge_add_ons)
   \<and> calculate_ldl_reduction 5.0 ''None'' ''Atorvastatin 80 mg'' [] = (2.5, 50)
   \<and> calculate_ldl_reduction 5.0 ''Atorvastatin 20 mg'' ''Rosuvastatin 20 mg'' [''Ezetimibe'']
       = (2.625, 47.5)"
proof (intro conjI)
  show "calculate_ldl_reduction current_ldl pre_statin discharge_statin discharge_add_ons =
     (current_ldl * (1 - spec_total_reduction pre_statin discharge_statin discharge_add_ons / 100),
      spec_total_reduction pre_statin discharge_statin discharge_add_ons)"
    by (rule calculate_ldl_reduction_unfold)
  show "calculate_ldl_reduction 5.0 ''None'' ''Atorvastatin 80 mg'' [] = (2.5, 50)"
    by (simp add: calculate_ldl_reduction_def Let_def LDL_THERAPIES_def dict_get_def)
  show "calculate_ldl_reduction 5.0 ''Atorvastatin 20 mg'' ''Rosuvastatin 20 mg'' [''Ezetimibe'']
       = (2.625, 47.5)"
    by (simp add: calculate_ldl_reduction_def Let_def LDL_THERAPIES_def dict_get_def)
qed

text \<open>
  Claim C6. A therapy name that is not a key of the catalog, the \<open>None\<close> sentinel and
  any unknown string alike, is looked up without an error and contributes a reduction
  of exactly 0: the function returns the pair computed from the add-ons alone.
\<close>

theorem unknown_therapy_no_reduction:
  assumes "name \<notin> dom LDL_THERAPIES"
  shows "dict_get (dict_get LDL_THERAPIES name Map.empty) ''reduction'' 0 = 0
       \<and> calculate_ldl_reduction current_ldl pre_statin name add_ons =
           (current_ldl * (1 - spec_add_on_increment add_ons / 100), spec_add_on_increment add_ons)"
  using catalog_lookup_unknown [OF assms]
  by (simp add: calculate_ldl_reduction_def Let_def spec_add_on_increment_def)

theorem unknown_therapy_no_reduction_witness:
  "''None'' \<notin> dom LDL_THERAPIES \<and>
   dict_get (dict_get LDL_THERAPIES ''None'' Map.empty) ''reduction'' 0 = 0 \<and>
   calculate_ldl_reduction 3.5 ''Atorvastatin 20 mg'' ''None'' [''Ezetimibe''] = (2.8, 20)"
proof -
  have h: "''None'' \<notin> dom LDL_THERAPIES"
    by (simp add: LDL_THERAPIES_def)
  from unknown_therapy_no_reduction [OF h, of "3.5" "''Atorvastatin 20 mg''" "[''Ezetimibe'']"] h
  show ?thesis by (simp add: spec_add_on_increment_def)
qed

text \<open>
  Claim C7. There are inputs with a positive current LDL whose total reduction exceeds
  100 and whose projected LDL is strictly negative, no floor being applied: any catalog
  statin with no pre-existing statin and both PCSK9 inhibitor and Inclisiran among the
  add-ons.
\<close>

theorem stacked_add_ons_negative_ldl:
  assumes "statin \<in> dom LDL_THERAPIES" "0 < current_ldl"
    "''PCSK9 inhibitor'' \<in> set add_ons" "''Inclisiran'' \<in> set add_ons"
  shows "100 < snd (calculate_ldl_reduction current_ldl ''None'' statin add_ons)
       \<and> fst (calculate_ldl_reduction current_ldl ''None'' statin add_ons) < 0"
proof -
  let ?t = "spec_total_reduction ''None'' statin add_ons"
  have "110 \<le> spec_add_on_increment add_ons"
    using assms(3,4) by (simp add: spec_add_on_increment_def)
  moreover have "0 < spec_catalog_reduction statin"
    using assms(1) by (auto simp: spec_catalog_reduction_def LDL_THERAPIES_def dom_def split: if_splits)
  ultimately have t: "100 < ?t"
    by (simp add: spec_total_reduction_def)
  then have "1 - ?t / 100 < 0" by simp
  with assms(2) have "current_ldl * (1 - ?t / 100) < 0"
    by (rule mult_pos_neg)
  with t show ?thesis
    by (simp add: calculate_ldl_reduction_unfold)
qed

theorem stacked_add_ons_negative_ldl_witness:
  "''Atorvastatin 20 mg'' \<in> dom LDL_THERAPIES \<and> (0::real) < 3.5 \<and>
   ''PCSK9 inhibitor'' \<in> set [''PCSK9 inhibitor'', ''Inclisiran''] \<and>
   ''Inclisiran'' \<in> set [''PCSK9 inhibitor'', ''Inclisiran''] \<and>
   100 < snd (calculate_ldl_reduction 3.5 ''None'' ''Atorvastatin 20 mg''
               [''PCSK9 inhibitor'', ''Inclisiran'']) \<and>
   fst (calculate_ldl_reduction 3.5 ''None'' ''Atorvastatin 20 mg''
         [''PCSK9 inhibitor'', ''Inclisiran'']) < 0"
proof -
  have h1: "''Atorvastatin 20 mg'' \<in> dom LDL_THERAPIES"
    by (simp add: LDL_THERAPIES_def)
  have h2: "(0::real) < 3.5" by simp
  have h3: "''PCSK9 inhibitor'' \<in> set [''PCSK9 inhibitor'', ''Inclisiran'']"
    and h4: "''Inclisiran'' \<in> set [''PCSK9 inhibitor'', ''Inclisiran'']"
    by simp_all
  from stacked_add_ons_negative_ldl [OF h1 h2 h3 h4] h1 h2 h3 h4
  show ?thesis by blast
qed

text \<open>
  Claim C9. The total reduction returned by \<open>calculate_ldl_reduction\<close> is never
  negative, and so for a current LDL that is not negative the projected LDL is at most
  the current LDL: the projection never increases LDL.
\<close>

theorem projection_never_increases:
  "0 \<le> snd (calculate_ldl_reduction current_ldl pre_statin discharge_statin discharge_add_ons)
   \<and> (0 \<le> current_ldl \<longrightarrow>
        fst (calculate_ldl_reduction current_ldl pre_statin discharge_statin discharge_add_ons)
          \<le> current_ldl)"
proof -
  let ?t = "spec_total_reduction pre_statin discharge_statin discharge_add_ons"
  have t: "0 \<le> ?t" by (rule spec_total_reduction_nonneg)
  have "current_ldl * (1 - ?t / 100) \<le> current_ldl" if "0 \<le> current_ldl"
  proof -
    have "1 - ?t / 100 \<le> 1" using t by simp
    with that have "current_ldl * (1 - ?t / 100) \<le> current_ldl * 1"
      by (rule mult_left_mono[rotated])
    then show ?thesis by simp
  qed
  with t show ?thesis
    by (simp add: calculate_ldl_reduction_unfold)
qed

theorem projection_never_increases_witness:
  "(0::real) \<le> 3.5 \<and>
   0 \<le> snd (calculate_ldl_reduction 3.5 ''None'' ''Rosuvastatin 10 mg'' [''Ezetimibe'']) \<and>
   fst (calculate_ldl_reduction 3.5 ''None'' ''Rosuvastatin 10 mg'' [''Ezetimibe'']) \<le> 3.5"
  using projection_never_increases [of "3.5" "''None''" "''Rosuvastatin 10 mg''" "[''Ezetimibe'']"]
  by simp

subsection \<open>The risk adjustment\<close>

text \<open>
  Claim C3. For all arguments \<open>calculate_ldl_effect\<close> returns
  \<open>baseline_risk * (1 - rrr / 100)\<close>, where \<open>rrr\<close> is the LDL term
  \<open>22 * (baseline_ldl - final_ldl)\<close> capped at 60, plus 10 for controlled blood pressure,
  10 for smoking cessation and 5 for lifestyle, the sum capped at 80. For
  (30, 4.0, 2.0, True, True, True) the result is 9.3.
\<close>

theorem calculate_ldl_effect_formula:
  "calculate_ldl_effect baseline_risk baseline_ldl final_ldl bp_controlled smoking_cessation lifestyle
     = baseline_risk * (1 - spec_rrr baseline_ldl final_ldl bp_controlled smoking_cessation lifestyle / 100)
   \<and> spec_rrr 4.0 2.0 True True True = 69
   \<and> calculate_ldl_effect 30 4.0 2.0 True True True = 9.3"
  by (simp add: calculate_ldl_effect_def Let_def spec_rrr_def)

subsection \<open>The recommendation\<close>

lemma texts_distinct: "distinct [very_high_text, high_text, moderate_text]"
  by (simp add: very_high_text_def high_text_def moderate_text_def)

text \<open>
  Claim C4. \<open>generate_recommendations\<close> is total on the reals: a final risk of at least
  30 gives the Very High text, one of at least 20 and below 30 the High text, one below
  20 the Moderate text, and the three texts differ. The boundaries 20 and 30 belong to
  the higher tier: 35 and 30 are Very High, 20 is High, 19.9 is Moderate.
\<close>

theorem generate_recommendations_tiers:
  "(30 \<le> final_risk \<longrightarrow> generate_recommendations final_risk = very_high_text)
   \<and> (20 \<le> final_risk \<and> final_risk < 30 \<longrightarrow> generate_recommendations final_risk = high_text)
   \<and> (final_risk < 20 \<longrightarrow> generate_recommendations final_risk = moderate_text)
   \<and> distinct [very_high_text, high_text, moderate_text]
   \<and> generate_recommendations 35 = very_high_text
   \<and> generate_recommendations 30 = very_high_text
   \<and> generate_recommendations 20 = high_text
   \<and> generate_recommendations 19.9 = moderate_text"
  using texts_distinct by (simp add: generate_recommendations_def)

theorem generate_recommendations_tiers_witness:
  "(30::real) \<le> 42 \<and> generate_recommendations 42 = very_high_text \<and>
   (20::real) \<le> 25 \<and> (25::real) < 30 \<and> generate_recommendations 25 = high_text \<and>
   (10::real) < 20 \<and> generate_recommendations 10 = moderate_text"
  using generate_recommendations_tiers [of 42] generate_recommendations_tiers [of 25]
    generate_recommendations_tiers [of 10]
  by simp

end
